theory Spec2Isabelle
  imports Main "HOL-Library.AList"
begin

section \<open>The NEWT client (newt/newt.py) as a shallow embedding\<close>

text \<open>
  The module is Python 2 code (it tests \<^verbatim>\<open>isinstance(jobscript, file)\<close>, and
  \<^verbatim>\<open>class Job:\<close> is an old-style class) on top of the \<^verbatim>\<open>requests\<close> library.
  Every method of \<^verbatim>\<open>NEWT\<close> and \<^verbatim>\<open>Job\<close> that the properties below are about is
  translated into a function on an explicit world: the requests sent so far, the server
  that answers them, and the local files. A method that raises returns \<open>Inl\<close> of the
  exception; a method that returns gives \<open>Inr\<close> of its value.

  What the model fixes about the environment:
  \<^item> text is a \<open>string\<close> (no distinction between \<^verbatim>\<open>str\<close> and \<^verbatim>\<open>unicode\<close>), and the
    numbers of a decoded body are integers (the module never computes with a number);
  \<^item> \<^verbatim>\<open>os.path\<close> is \<^verbatim>\<open>posixpath\<close> (setup.py names the platform linux);
  \<^item> a file object handed to the client is an open, readable file with a name;
  \<^item> a response carries the outcome of \<^verbatim>\<open>raise_for_status()\<close>, of \<^verbatim>\<open>json()\<close> and of
    \<^verbatim>\<open>iter_content(chunk_size=1024)\<close>: these are the library's, not the module's.
\<close>

subsection \<open>Values, exceptions, requests and responses\<close>

datatype json =
    JNull
  | JBool bool
  | JInt int
  | JStr string
  | JArr "json list"
  | JObj "(string \<times> json) list"

text \<open>
  The exceptions the modelled code can raise. \<open>ValueError\<close> carries its message and
  \<open>KeyError\<close> the key that was missing; \<open>JSONDecodeError\<close> is what \<^verbatim>\<open>resp.json()\<close>
  raises on a body that is not JSON, \<open>HTTPError\<close> what \<^verbatim>\<open>resp.raise_for_status()\<close>
  raises, \<open>ConnectionError\<close> stands for a failure of the transport itself, and
  \<open>RuntimeError\<close> is the recursion limit.
\<close>

datatype exc =
    ValueError string
  | HTTPError
  | ConnectionError
  | JSONDecodeError
  | KeyError string
  | AttributeError
  | TypeError
  | IndexError
  | IOError
  | RuntimeError

record file_obj =
  name :: string
  content :: string

datatype http_method = GET | POST | DELETE

record request =
  rmethod :: http_method
  rurl :: string
  rparams :: "(string \<times> json) list"
  rdata :: "(string \<times> json) list"
  rfiles :: "(string \<times> string \<times> file_obj) list"
  rstream :: bool

record response =
  http_error :: bool
  json_body :: "json option"
  chunks :: "string list"

type_synonym session_ref = nat

text \<open>
  The world: \<open>sent\<close> is every request issued so far with the session that issued it,
  \<open>server\<close> answers a request given that history (or the transport raises),
  \<open>next_ref\<close> is the next fresh session object, \<open>files\<close> is the local file system and
  \<open>unwritable\<close> the local paths that \<^verbatim>\<open>open(path, 'wb')\<close> refuses.
\<close>

record world =
  sent :: "(session_ref \<times> request) list"
  server :: "(session_ref \<times> request) list \<Rightarrow> session_ref \<Rightarrow> request \<Rightarrow> exc + response"
  next_ref :: nat
  files :: "string \<rightharpoonup> string"
  unwritable :: "string set"

text \<open>
  What an attribute of a \<^verbatim>\<open>Job\<close> instance can hold: decoded JSON data, the session
  object, or (\<open>ABuiltin\<close>) the value of a class or special attribute such as the bound
  method \<^verbatim>\<open>update\<close>, which nothing below inspects. A job is its instance dictionary.
\<close>

datatype attr_val =
    AJson json
  | ASession session_ref
  | ABuiltin string

type_synonym job = "string \<rightharpoonup> attr_val"

record newt =
  session :: session_ref

text \<open>What a method returns: plain data, a constructed exception object, or job handles.\<close>

datatype pyret =
    Value json
  | ErrorValue exc
  | Jobs "job list"

subsection \<open>Constants of the module\<close>

definition NEWT_BASE_URL :: string where
  "NEWT_BASE_URL = ''https://newt.nersc.gov/newt''"

definition NEWT_MACHINES :: "string list" where
  "NEWT_MACHINES = [''hopper'', ''carver'', ''edison'']"

subsection \<open>Python and library primitives the module calls\<close>

text \<open>\<^verbatim>\<open>s.split(sep)\<close> for a one-character separator: never an empty list.\<close>

fun py_split :: "string \<Rightarrow> char \<Rightarrow> string list" where
  "py_split [] sep = [[]]"
| "py_split (x # xs) sep =
     (if x = sep then [] # py_split xs sep
      else (case py_split xs sep of [] \<Rightarrow> [[x]] | y # ys \<Rightarrow> (x # y) # ys))"

text \<open>
  \<^verbatim>\<open>xs[i]\<close> for an integer: a negative index counts from the end, and an index out
  of range is an IndexError. The module uses \<^verbatim>\<open>[0]\<close> and \<^verbatim>\<open>[-1]\<close>.
\<close>

definition py_index :: "'a list \<Rightarrow> int \<Rightarrow> exc + 'a" where
  "py_index xs i =
     (if 0 \<le> i \<and> i < int (length xs) then Inr (xs ! nat i)
      else if i < 0 \<and> - int (length xs) \<le> i then Inr (xs ! nat (int (length xs) + i))
      else Inl IndexError)"

text \<open>\<^verbatim>\<open>s.rfind(c)\<close>: the highest index of \<open>c\<close> in \<open>s\<close>, or -1.\<close>

fun rfind :: "string \<Rightarrow> char \<Rightarrow> int" where
  "rfind [] c = - 1"
| "rfind (x # xs) c =
     (let r = rfind xs c in if 0 \<le> r then r + 1 else if x = c then 0 else - 1)"

text \<open>\<^verbatim>\<open>s.rstrip('/')\<close>.\<close>

definition rstrip_slash :: "string \<Rightarrow> string" where
  "rstrip_slash s = rev (dropWhile (\<lambda>c. c = CHR ''/'') (rev s))"

text \<open>
  \<^verbatim>\<open>os.path.split\<close> of posixpath:
  \<^verbatim>\<open>
  i = p.rfind('/') + 1
  head, tail = p[:i], p[i:]
  if head and head != '/'*len(head):
      head = head.rstrip('/')
  return head, tail
  \<close>
\<close>

definition os_path_split :: "string \<Rightarrow> string \<times> string" where
  "os_path_split p =
     (let i = nat (rfind p CHR ''/'' + 1);
          head = take i p;
          tail = drop i p
      in (if head \<noteq> [] \<and> head \<noteq> replicate (length head) CHR ''/''
          then rstrip_slash head else head, tail))"

text \<open>Truth value of a decoded JSON value, and of an optional string argument.\<close>

fun truthy :: "json \<Rightarrow> bool" where
  "truthy JNull = False"
| "truthy (JBool b) = b"
| "truthy (JInt i) = (i \<noteq> 0)"
| "truthy (JStr s) = (s \<noteq> [])"
| "truthy (JArr xs) = (xs \<noteq> [])"
| "truthy (JObj kvs) = (kvs \<noteq> [])"

fun truthy_opt :: "string option \<Rightarrow> bool" where
  "truthy_opt None = False"
| "truthy_opt (Some s) = (s \<noteq> [])"

text \<open>
  \<^verbatim>\<open>d[key]\<close> for a string key: a dict looks the key up (KeyError when absent); a list
  or a string rejects a string index and the other values are not subscriptable
  (TypeError).
\<close>

fun subscript :: "json \<Rightarrow> string \<Rightarrow> exc + json" where
  "subscript (JObj kvs) key =
     (case map_of kvs key of None \<Rightarrow> Inl (KeyError key) | Some v \<Rightarrow> Inr v)"
| "subscript _ key = Inl TypeError"

text \<open>
  \<^verbatim>\<open>xs[key]\<close> for a list and a decoded value as the index: an integer (a boolean is
  one) indexes the list, anything else is a TypeError.
\<close>

definition list_item :: "json list \<Rightarrow> json \<Rightarrow> exc + json" where
  "list_item xs key =
     (case key of
        JInt i \<Rightarrow> py_index xs i
      | JBool b \<Rightarrow> py_index xs (if b then 1 else 0)
      | _ \<Rightarrow> Inl TypeError)"

text \<open>\<^verbatim>\<open>d.update(kwargs)\<close> on a dict kept as an association list.\<close>

definition dict_update :: "(string \<times> json) list \<Rightarrow> (string \<times> json) list \<Rightarrow> (string \<times> json) list" where
  "dict_update d kwargs = foldl (\<lambda>acc (k, v). AList.update k v acc) d kwargs"

text \<open>\<^verbatim>\<open>Session()\<close>: a fresh session object.\<close>

definition new_session :: "world \<Rightarrow> session_ref \<times> world" where
  "new_session w = (next_ref w, w\<lparr>next_ref := Suc (next_ref w)\<rparr>)"

text \<open>
  \<^verbatim>\<open>session.get(...)\<close>, \<^verbatim>\<open>session.post(...)\<close>: the request is recorded and the
  server's answer (or the transport's exception) comes back.
\<close>

definition send :: "session_ref \<Rightarrow> request \<Rightarrow> world \<Rightarrow> (exc + response) \<times> world" where
  "send s req w = (server w (sent w) s req, w\<lparr>sent := sent w @ [(s, req)]\<rparr>)"

definition mk_request :: "http_method \<Rightarrow> string \<Rightarrow> request" where
  "mk_request m u =
     \<lparr>rmethod = m, rurl = u, rparams = [], rdata = [], rfiles = [], rstream = False\<rparr>"

text \<open>\<^verbatim>\<open>resp.raise_for_status()\<close> followed by \<^verbatim>\<open>resp.json()\<close>.\<close>

definition checked :: "exc + response \<Rightarrow> exc + response" where
  "checked r =
     (case r of Inl e \<Rightarrow> Inl e
      | Inr resp \<Rightarrow> if http_error resp then Inl HTTPError else Inr resp)"

definition resp_json :: "response \<Rightarrow> exc + json" where
  "resp_json resp = (case json_body resp of None \<Rightarrow> Inl JSONDecodeError | Some j \<Rightarrow> Inr j)"

definition checked_json :: "exc + response \<Rightarrow> exc + json" where
  "checked_json r = (case checked r of Inl e \<Rightarrow> Inl e | Inr resp \<Rightarrow> resp_json resp)"

text \<open>\<^verbatim>\<open>open(path, 'wb')\<close> creates or truncates; \<^verbatim>\<open>f.write(chunk)\<close> appends.\<close>

definition open_wb :: "string \<Rightarrow> world \<Rightarrow> exc + world" where
  "open_wb path w =
     (if path = [] \<or> path \<in> unwritable w then Inl IOError
      else Inr (w\<lparr>files := (files w)(path \<mapsto> [])\<rparr>))"

definition file_write :: "string \<Rightarrow> string \<Rightarrow> world \<Rightarrow> world" where
  "file_write path chunk w =
     w\<lparr>files := (files w)(path \<mapsto> (case files w path of None \<Rightarrow> [] | Some old \<Rightarrow> old) @ chunk)\<rparr>"

subsection \<open>class NEWT\<close>

definition invalid_machine :: pyret where
  "invalid_machine = ErrorValue (ValueError ''machine value must be specified'')"

definition login_request :: "string \<Rightarrow> string \<Rightarrow> request" where
  "login_request username password =
     (mk_request POST (NEWT_BASE_URL @ ''/login''))
       \<lparr>rdata := [(''username'', JStr username), (''password'', JStr password)]\<rparr>"

text \<open>Lines 24 to 26 of \<^verbatim>\<open>login\<close>, on the decoded body.\<close>

definition login_result :: "string \<Rightarrow> json \<Rightarrow> exc + pyret" where
  "login_result username body =
     (case subscript body ''auth'' of Inl e \<Rightarrow> Inl e
      | Inr auth \<Rightarrow>
          if truthy auth then
            (case subscript body ''username'' of Inl e \<Rightarrow> Inl e
             | Inr u \<Rightarrow>
                 if u = JStr username then Inr (Value auth)
                 else Inl (ValueError ''Could not get authorized connection to NEWT!''))
          else Inl (ValueError ''Could not get authorized connection to NEWT!''))"

definition NEWT_login :: "newt \<Rightarrow> string \<Rightarrow> string \<Rightarrow> world \<Rightarrow> (exc + pyret) \<times> world" where
  "NEWT_login self username password w =
     (case send (session self) (login_request username password) w of
        (r, w') \<Rightarrow>
          (case checked_json r of Inl e \<Rightarrow> (Inl e, w')
           | Inr body \<Rightarrow> (login_result username body, w')))"

definition NEWT_init :: "string \<Rightarrow> string \<Rightarrow> world \<Rightarrow> (exc + newt) \<times> world" where
  "NEWT_init username password w =
     (case new_session w of
        (s, w1) \<Rightarrow>
          (let self = \<lparr>session = s\<rparr> in
           case NEWT_login self username password w1 of
             (Inl e, w2) \<Rightarrow> (Inl e, w2)
           | (Inr _, w2) \<Rightarrow> (Inr self, w2)))"

definition NEWT_list :: "newt \<Rightarrow> string \<Rightarrow> string \<Rightarrow> world \<Rightarrow> (exc + pyret) \<times> world" where
  "NEWT_list self machine remote_dir w =
     (if machine \<notin> set NEWT_MACHINES then (Inr invalid_machine, w)
      else
        (let url = NEWT_BASE_URL @ ''/file/'' @ machine @ remote_dir in
         case send (session self) (mk_request GET url) w of
           (r, w') \<Rightarrow>
             (case checked_json r of Inl e \<Rightarrow> (Inl e, w') | Inr j \<Rightarrow> (Inr (Value j), w'))))"

text \<open>The loop of \<^verbatim>\<open>download\<close> over the streamed chunks.\<close>

fun write_chunks :: "string \<Rightarrow> string list \<Rightarrow> world \<Rightarrow> world" where
  "write_chunks path [] w = w"
| "write_chunks path (chunk # rest) w =
     write_chunks path rest (if chunk \<noteq> [] then file_write path chunk w else w)"

definition NEWT_download ::
    "newt \<Rightarrow> string \<Rightarrow> string \<Rightarrow> string option \<Rightarrow> world \<Rightarrow> (exc + pyret) \<times> world" where
  "NEWT_download self machine remote_path local_path w =
     (if machine \<notin> set NEWT_MACHINES then (Inr invalid_machine, w)
      else
        (case (if \<not> truthy_opt local_path then py_index (py_split remote_path CHR ''/'') (- 1)
               else Inr (case local_path of None \<Rightarrow> [] | Some p \<Rightarrow> p)) of
           Inl e \<Rightarrow> (Inl e, w)
         | Inr lp \<Rightarrow>
             (let url = NEWT_BASE_URL @ ''/file/'' @ machine @ remote_path in
              case send (session self)
                     ((mk_request GET url)\<lparr>rparams := [(''view'', JStr ''read'')], rstream := True\<rparr>) w of
                (r, w') \<Rightarrow>
                  (case checked r of Inl e \<Rightarrow> (Inl e, w')
                   | Inr resp \<Rightarrow>
                       (case open_wb lp w' of Inl e \<Rightarrow> (Inl e, w')
                        | Inr w'' \<Rightarrow> (Inr (Value (JStr lp)), write_chunks lp (chunks resp) w''))))))"

definition NEWT_upload :: "newt \<Rightarrow> string \<Rightarrow> string \<Rightarrow> file_obj \<Rightarrow> world \<Rightarrow> (exc + pyret) \<times> world" where
  "NEWT_upload self machine remote_path fobj w =
     (if machine \<notin> set NEWT_MACHINES then (Inr invalid_machine, w)
      else
        (case os_path_split remote_path of
           (remote_dir, remote_filename) \<Rightarrow>
             (let fs = (if remote_filename \<noteq> [] then [(''file'', (remote_filename, fobj))]
                        else [(''file'', (name fobj, fobj))]);
                  url = NEWT_BASE_URL @ ''/file/'' @ machine @ remote_dir
              in case send (session self) ((mk_request POST url)\<lparr>rfiles := fs\<rparr>) w of
                   (r, w') \<Rightarrow>
                     (case checked r of Inl e \<Rightarrow> (Inl e, w')
                      | Inr resp \<Rightarrow> (Inr (Value (JBool True)), w')))))"

definition NEWT_run_command :: "newt \<Rightarrow> string \<Rightarrow> string \<Rightarrow> bool \<Rightarrow> world \<Rightarrow> (exc + pyret) \<times> world" where
  "NEWT_run_command self machine command loginenv w =
     (if machine \<notin> set NEWT_MACHINES then (Inr invalid_machine, w)
      else
        (let url = NEWT_BASE_URL @ ''/command/'' @ machine in
         case send (session self)
                ((mk_request POST url)
                   \<lparr>rdata := [(''executable'', JStr command), (''loginenv'', JBool loginenv)]\<rparr>) w of
           (r, w') \<Rightarrow>
             (case checked_json r of Inl e \<Rightarrow> (Inl e, w') | Inr j \<Rightarrow> (Inr (Value j), w'))))"

subsection \<open>class Job\<close>

text \<open>
  \<^verbatim>\<open>Job(session, **kwargs)\<close>: a keyword named like one of the two positional
  parameters of \<^verbatim>\<open>__init__\<close> is a TypeError (multiple values for the argument);
  otherwise the instance dictionary gets \<^verbatim>\<open>_session\<close> and \<^verbatim>\<open>_data\<close>.
\<close>

definition Job_init :: "session_ref \<Rightarrow> (string \<times> json) list \<Rightarrow> exc + job" where
  "Job_init s kwargs =
     (if ''self'' \<in> fst ` set kwargs \<or> ''session'' \<in> fst ` set kwargs then Inl TypeError
      else Inr [''_session'' \<mapsto> ASession s, ''_data'' \<mapsto> AJson (JObj kwargs)])"

text \<open>The names the class statement itself binds.\<close>

definition Job_class_attrs :: "string list" where
  "Job_class_attrs =
     [''__doc__'', ''__module__'', ''__init__'', ''__getattr__'', ''update'', ''delete'']"

text \<open>
  \<^verbatim>\<open>Job.__getattr__\<close>, \<^verbatim>\<open>return self._data[attr]\<close>. Reading \<^verbatim>\<open>self._data\<close> is an
  attribute read of its own: with no \<^verbatim>\<open>_data\<close> in the instance dictionary it comes
  back here for \<^verbatim>\<open>'_data'\<close> and recurses until the interpreter stops it.
\<close>

definition Job_getattr_hook :: "job \<Rightarrow> string \<Rightarrow> exc + attr_val" where
  "Job_getattr_hook self attr =
     (case self ''_data'' of
        None \<Rightarrow> Inl RuntimeError
      | Some (AJson d) \<Rightarrow> (case subscript d attr of Inl e \<Rightarrow> Inl e | Inr v \<Rightarrow> Inr (AJson v))
      | Some _ \<Rightarrow> Inl TypeError)"

text \<open>
  Reading \<^verbatim>\<open>self.attr\<close> on an old-style instance: the two special names, then the
  instance dictionary, then the class, and only then \<^verbatim>\<open>__getattr__\<close>.
\<close>

definition Job_getattr :: "job \<Rightarrow> string \<Rightarrow> exc + attr_val" where
  "Job_getattr self attr =
     (if attr = ''__dict__'' \<or> attr = ''__class__'' then Inr (ABuiltin attr)
      else (case self attr of
              Some v \<Rightarrow> Inr v
            | None \<Rightarrow>
                if attr \<in> set Job_class_attrs then Inr (ABuiltin attr)
                else Job_getattr_hook self attr))"

text \<open>
  \<^verbatim>\<open>setattr(self, key, value)\<close> with a decoded JSON value: \<^verbatim>\<open>__class__\<close> accepts
  only a class and \<^verbatim>\<open>__dict__\<close> only a dictionary, which then replaces the instance
  dictionary; every other name is stored in the instance dictionary. (In Python the
  dictionary given for \<^verbatim>\<open>__dict__\<close> is then shared with the value it came from; the
  model copies it, and the properties below that depend on it exclude that name.)
\<close>

definition Job_setattr :: "job \<Rightarrow> string \<Rightarrow> json \<Rightarrow> exc + job" where
  "Job_setattr self key v =
     (if key = ''__class__'' then Inl TypeError
      else if key = ''__dict__'' then
        (case v of JObj kvs \<Rightarrow> Inr (map_of (map (\<lambda>(k, x). (k, AJson x)) kvs))
         | _ \<Rightarrow> Inl TypeError)
      else Inr (self(key \<mapsto> AJson v)))"

text \<open>Lines 241 to 244: the per-job endpoint.\<close>

definition Job_url :: "job \<Rightarrow> exc + string" where
  "Job_url self =
     (case Job_getattr self ''jobid'' of Inl e \<Rightarrow> Inl e
      | Inr (AJson (JStr j)) \<Rightarrow>
          (case py_index (py_split j CHR ''.'') 0 of Inl e \<Rightarrow> Inl e
           | Inr jobid \<Rightarrow>
               (case Job_getattr self ''hostname'' of Inl e \<Rightarrow> Inl e
                | Inr (AJson (JStr machine)) \<Rightarrow>
                    Inr (NEWT_BASE_URL @ ''/queue/'' @ machine @ ''/'' @ jobid)
                | Inr _ \<Rightarrow> Inl TypeError))
      | Inr _ \<Rightarrow> Inl AttributeError)"

text \<open>\<^verbatim>\<open>self._session\<close>, which must be a session to have the request methods.\<close>

definition Job_session :: "job \<Rightarrow> exc + session_ref" where
  "Job_session self =
     (case Job_getattr self ''_session'' of Inl e \<Rightarrow> Inl e
      | Inr (ASession s) \<Rightarrow> Inr s
      | Inr _ \<Rightarrow> Inl AttributeError)"

text \<open>
  Lines 249 and 250, \<^verbatim>\<open>for key in job_info: setattr(self, key, job_info[key])\<close>,
  over the keys of the decoded object in its iteration order; the loop stops at the
  first exception and keeps what it has set.
\<close>

fun setattr_all :: "job \<Rightarrow> (string \<times> json) list \<Rightarrow> string list \<Rightarrow> exc option \<times> job" where
  "setattr_all self job_info [] = (None, self)"
| "setattr_all self job_info (key # keys) =
     (case subscript (JObj job_info) key of
        Inl e \<Rightarrow> (Some e, self)
      | Inr v \<Rightarrow>
          (case Job_setattr self key v of
             Inl e \<Rightarrow> (Some e, self)
           | Inr self' \<Rightarrow> setattr_all self' job_info keys))"

text \<open>
  The loop on whatever \<^verbatim>\<open>resp.json()\<close> gave. An object is iterated by its keys. An
  empty list or string has nothing to iterate. A non-empty list fails on its first
  element: at \<^verbatim>\<open>job_info[key]\<close>, or else at \<^verbatim>\<open>setattr\<close>, whose name is then no
  string. A non-empty string fails at \<^verbatim>\<open>job_info[key]\<close> with its first character as
  the index, and the other values are not iterable.
\<close>

definition store_fields :: "job \<Rightarrow> json \<Rightarrow> exc option \<times> job" where
  "store_fields self job_info =
     (case job_info of
        JObj kvs \<Rightarrow> setattr_all self kvs (map fst kvs)
      | JArr [] \<Rightarrow> (None, self)
      | JArr (key # rest) \<Rightarrow>
          (case list_item (key # rest) key of
             Inl e \<Rightarrow> (Some e, self)
           | Inr v \<Rightarrow> (Some TypeError, self))
      | JStr [] \<Rightarrow> (None, self)
      | _ \<Rightarrow> (Some TypeError, self))"

definition Job_update :: "job \<Rightarrow> world \<Rightarrow> (exc + pyret) \<times> job \<times> world" where
  "Job_update self w =
     (case Job_url self of Inl e \<Rightarrow> (Inl e, self, w)
      | Inr url \<Rightarrow>
          (case Job_session self of Inl e \<Rightarrow> (Inl e, self, w)
           | Inr s \<Rightarrow>
               (case send s (mk_request GET url) w of
                  (r, w') \<Rightarrow>
                    (case checked_json r of Inl e \<Rightarrow> (Inl e, self, w')
                     | Inr job_info \<Rightarrow>
                         (case store_fields self job_info of
                            (Some e, self') \<Rightarrow> (Inl e, self', w')
                          | (None, self') \<Rightarrow> (Inr (Value job_info), self', w'))))))"

subsection \<open>The queue methods of NEWT\<close>

text \<open>
  \<^verbatim>\<open>[Job(self._session, **job_info) for job_info in resp.json()]\<close>: the elements of a
  list, the keys of an object or the characters of a string are iterated, and each must
  be a mapping to be passed as keyword arguments.
\<close>

fun make_jobs :: "session_ref \<Rightarrow> json list \<Rightarrow> exc + job list" where
  "make_jobs s [] = Inr []"
| "make_jobs s (job_info # rest) =
     (case job_info of
        JObj kvs \<Rightarrow>
          (case Job_init s kvs of Inl e \<Rightarrow> Inl e
           | Inr j \<Rightarrow> (case make_jobs s rest of Inl e \<Rightarrow> Inl e | Inr js \<Rightarrow> Inr (j # js)))
      | _ \<Rightarrow> Inl TypeError)"

definition iterate :: "json \<Rightarrow> exc + json list" where
  "iterate j =
     (case j of
        JArr xs \<Rightarrow> Inr xs
      | JObj kvs \<Rightarrow> Inr (map (\<lambda>(k, v). JStr k) kvs)
      | JStr s \<Rightarrow> Inr (map (\<lambda>c. JStr [c]) s)
      | _ \<Rightarrow> Inl TypeError)"

definition NEWT_queue_stat ::
    "newt \<Rightarrow> string \<Rightarrow> json \<Rightarrow> json \<Rightarrow> (string \<times> json) list \<Rightarrow> world \<Rightarrow> (exc + pyret) \<times> world" where
  "NEWT_queue_stat self machine index limit kwargs w =
     (if machine \<notin> set NEWT_MACHINES then (Inr invalid_machine, w)
      else
        (let url = NEWT_BASE_URL @ ''/queue/'' @ machine;
             params = dict_update [(''index'', index), (''limit'', limit)] kwargs
         in case send (session self) ((mk_request GET url)\<lparr>rparams := params\<rparr>) w of
              (r, w') \<Rightarrow>
                (case checked_json r of Inl e \<Rightarrow> (Inl e, w')
                 | Inr j \<Rightarrow>
                     (case iterate j of Inl e \<Rightarrow> (Inl e, w')
                      | Inr entries \<Rightarrow>
                          (case make_jobs (session self) entries of Inl e \<Rightarrow> (Inl e, w')
                           | Inr js \<Rightarrow> (Inr (Jobs js), w'))))))"

text \<open>The job script argument: inline text, or a file object that is read.\<close>

datatype jobscript_arg = Script string | ScriptFile file_obj

fun jobscript_text :: "jobscript_arg \<Rightarrow> string" where
  "jobscript_text (ScriptFile f) = content f"
| "jobscript_text (Script s) = s"

definition NEWT_queue_submit ::
    "newt \<Rightarrow> string \<Rightarrow> jobscript_arg \<Rightarrow> string option \<Rightarrow> world \<Rightarrow> (exc + pyret) \<times> world" where
  "NEWT_queue_submit self machine jobscript jobfile w =
     (if machine \<notin> set NEWT_MACHINES then (Inr invalid_machine, w)
      else
        (let job = jobscript_text jobscript;
             data = (if truthy_opt jobfile
                     then [(''jobscript'', JStr []),
                           (''jobfile'', JStr (case jobfile of None \<Rightarrow> [] | Some p \<Rightarrow> p))]
                     else [(''jobscript'', JStr job), (''jobfile'', JStr [])]);
             url = NEWT_BASE_URL @ ''/queue/'' @ machine
         in case send (session self) ((mk_request POST url)\<lparr>rdata := data\<rparr>) w of
              (r, w') \<Rightarrow>
                (case checked_json r of Inl e \<Rightarrow> (Inl e, w') | Inr j \<Rightarrow> (Inr (Value j), w'))))"

subsection \<open>Concrete worlds and values for the examples\<close>

text \<open>A fresh world whose server answers every request by \<open>f\<close>, whatever came before.\<close>

definition world_of :: "(request \<Rightarrow> exc + response) \<Rightarrow> world" where
  "world_of f =
     \<lparr>sent = [], server = (\<lambda>history s req. f req), next_ref = 0,
      files = Map.empty, unwritable = {}\<rparr>"

definition ok_json :: "json \<Rightarrow> response" where
  "ok_json j = \<lparr>http_error = False, json_body = Some j, chunks = []\<rparr>"

definition ok_chunks :: "string list \<Rightarrow> response" where
  "ok_chunks cs = \<lparr>http_error = False, json_body = None, chunks = cs\<rparr>"

definition client0 :: newt where
  "client0 = \<lparr>session = 0\<rparr>"

text \<open>The queue entry of the specification's scenario, and the handle made from it.\<close>

definition example_fields :: "(string \<times> json) list" where
  "example_fields =
     [(''jobid'', JStr ''12345.server''), (''hostname'', JStr ''exampleMachine''),
      (''state'', JStr ''Running'')]"

definition example_job :: job where
  "example_job = [''_session'' \<mapsto> ASession 0, ''_data'' \<mapsto> AJson (JObj example_fields)]"




text \<open>A local file object, and a world with a stale local file whose server streams three chunks.\<close>

definition example_file :: file_obj where
  "example_file = \<lparr>name = ''local.txt'', content = ''hello''\<rparr>"

definition download_world :: world where
  "download_world =
     (world_of (\<lambda>req. Inr (ok_chunks [''ab'', '''', ''cd''])))\<lparr>files := [''data.bin'' \<mapsto> ''stale'']\<rparr>"

text \<open>
  An answer to a login (the status check's outcome, the auth flag and the echoed name),
  and a fresh world whose server gives that answer.
\<close>

definition login_answer :: "bool \<Rightarrow> bool \<Rightarrow> string \<Rightarrow> response" where
  "login_answer err auth user =
     \<lparr>http_error = err,
      json_body = Some (JObj [(''auth'', JBool auth), (''username'', JStr user)]),
      chunks = []\<rparr>"

definition login_world :: "bool \<Rightarrow> bool \<Rightarrow> string \<Rightarrow> world" where
  "login_world err auth user = world_of (\<lambda>req. Inr (login_answer err auth user))"

text \<open>Two queue listings: two ordinary entries, and an entry with a field named \<^verbatim>\<open>session\<close>.\<close>

definition example_queue :: json where
  "example_queue =
     JArr [JObj example_fields,
           JObj [(''jobid'', JStr ''12346.server''), (''hostname'', JStr ''hopper'')]]"

definition colliding_queue :: json where
  "colliding_queue = JArr [JObj [(''jobid'', JStr ''12345.server''), (''session'', JStr ''42'')]]"

section \<open>Properties\<close>

subsection \<open>Splitting strings and paths\<close>

lemma py_split_nonempty: "py_split s c \<noteq> []"
  by (induction s) (auto split: list.splits)

lemma hd_py_split: "hd (py_split s c) = takeWhile (\<lambda>x. x \<noteq> c) s"
proof (induction s)
  case Nil
  show ?case by simp
next
  case (Cons x xs)
  obtain y ys where "py_split xs c = y # ys"
    using py_split_nonempty [of xs c] by (cases "py_split xs c") auto
  with Cons show ?case by simp
qed

text \<open>The first piece of a split is the text before the first separator.\<close>

lemma py_first_split: "py_index (py_split s c) 0 = Inr (takeWhile (\<lambda>x. x \<noteq> c) s)"
  using py_split_nonempty [of s c] hd_py_split [of s c]
  by (simp add: py_index_def hd_conv_nth)

lemma py_split_no_sep: "c \<notin> set s \<Longrightarrow> py_split s c = [s]"
  by (induction s) auto

lemma py_split_at_sep: "py_split (s @ c # t) c = py_split s c @ py_split t c"
proof (induction s)
  case Nil
  show ?case by simp
next
  case (Cons x xs)
  obtain y ys where sp: "py_split xs c = y # ys"
    using py_split_nonempty[of xs c] by (cases "py_split xs c") auto
  with Cons show ?case by simp
qed

lemma takeWhile_rev_all: "c \<notin> set s \<Longrightarrow> takeWhile (\<lambda>x. x \<noteq> c) (rev s) = rev s"
  by (rule takeWhile_eq_all_conv[THEN iffD2]) auto

text \<open>The last piece of a split is the text after the last separator.\<close>

lemma last_py_split: "last (py_split s c) = rev (takeWhile (\<lambda>x. x \<noteq> c) (rev s))"
proof (cases "c \<in> set s")
  case False
  then show ?thesis
    by (simp add: py_split_no_sep takeWhile_rev_all)
next
  case True
  then obtain a t where s: "s = a @ c # t" and t: "c \<notin> set t"
    by (auto dest: split_list_last)
  have "takeWhile (\<lambda>x. x \<noteq> c) (rev t @ c # rev a) = rev t"
    using t by (auto simp: takeWhile_tail)
  then show ?thesis
    using t by (simp add: s py_split_at_sep py_split_no_sep)
qed

lemma rfind_absent: "c \<notin> set s \<Longrightarrow> rfind s c = - 1"
  by (induction s) (auto simp: Let_def)

lemma rfind_at_last: "c \<notin> set t \<Longrightarrow> rfind (a @ c # t) c = int (length a)"
  by (induction a) (simp_all add: Let_def rfind_absent)

lemma drop_rfind: "drop (nat (rfind s c + 1)) s = rev (takeWhile (\<lambda>x. x \<noteq> c) (rev s))"
proof (cases "c \<in> set s")
  case False
  then show ?thesis
    by (simp add: rfind_absent takeWhile_rev_all)
next
  case True
  then obtain a t where s: "s = a @ c # t" and t: "c \<notin> set t"
    by (auto dest: split_list_last)
  have "takeWhile (\<lambda>x. x \<noteq> c) (rev t @ c # rev a) = rev t"
    using t by (auto simp: takeWhile_tail)
  moreover have "nat (int (length a) + 1) = Suc (length a)"
    by simp
  ultimately show ?thesis
    using t by (simp add: s rfind_at_last del: of_nat_Suc)
qed

text \<open>The tail of \<^verbatim>\<open>os.path.split\<close> is the text after the last slash.\<close>

lemma os_path_split_tail:
  "snd (os_path_split p) = rev (takeWhile (\<lambda>x. x \<noteq> CHR ''/'') (rev p))"
  by (simp add: os_path_split_def Let_def drop_rfind)

subsection \<open>Invalid machine names\<close>

text \<open>
  C1. For every machine string outside \<^verbatim>\<open>NEWT_MACHINES\<close>, each of list, download,
  upload, run_command, queue_stat and queue_submit returns the constructed
  \<^verbatim>\<open>ValueError('machine value must be specified')\<close> as its value (it does not raise),
  and the world is unchanged: no request is issued and no file is touched.
\<close>

theorem C1_invalid_machine_returned:
  assumes "machine \<notin> set NEWT_MACHINES"
  shows "NEWT_list self machine remote_dir w =
           (Inr (ErrorValue (ValueError ''machine value must be specified'')), w)
       \<and> NEWT_download self machine remote_path local_path w =
           (Inr (ErrorValue (ValueError ''machine value must be specified'')), w)
       \<and> NEWT_upload self machine remote_path fobj w =
           (Inr (ErrorValue (ValueError ''machine value must be specified'')), w)
       \<and> NEWT_run_command self machine command loginenv w =
           (Inr (ErrorValue (ValueError ''machine value must be specified'')), w)
       \<and> NEWT_queue_stat self machine index limit kwargs w =
           (Inr (ErrorValue (ValueError ''machine value must be specified'')), w)
       \<and> NEWT_queue_submit self machine jobscript jobfile w =
           (Inr (ErrorValue (ValueError ''machine value must be specified'')), w)"
  using assms
  by (simp add: NEWT_list_def NEWT_download_def NEWT_upload_def NEWT_run_command_def
      NEWT_queue_stat_def NEWT_queue_submit_def invalid_machine_def)

text \<open>The system \<^verbatim>\<open>pdsf\<close> is no machine: nothing is sent for it.\<close>

theorem C1_invalid_machine_witness:
  "''pdsf'' \<notin> set NEWT_MACHINES
   \<and> fst (NEWT_list client0 ''pdsf'' ''/home'' (world_of (\<lambda>req. Inl ConnectionError)))
       = Inr (ErrorValue (ValueError ''machine value must be specified''))
   \<and> sent (snd (NEWT_list client0 ''pdsf'' ''/home'' (world_of (\<lambda>req. Inl ConnectionError)))) = []
   \<and> sent (snd (NEWT_queue_submit client0 ''pdsf'' (Script ''date'') None
                  (world_of (\<lambda>req. Inl ConnectionError)))) = []"
proof -
  have h: "''pdsf'' \<notin> set NEWT_MACHINES"
    by (simp add: NEWT_MACHINES_def)
  from C1_invalid_machine_returned [OF h, of client0 "''/home''"
      "world_of (\<lambda>req. Inl ConnectionError)" _ _ _ _ _ _ _ _ "Script ''date''" None]
  show ?thesis using h by (simp add: world_of_def)
qed

subsection \<open>Reading a field of a job handle\<close>

text \<open>
  The handle of the scenario has no field \<^verbatim>\<open>queue\<close>: reading it raises the
  \<^verbatim>\<open>KeyError\<close> of the dictionary lookup in \<^verbatim>\<open>__getattr__\<close>, which is not an
  \<^verbatim>\<open>AttributeError\<close>.
\<close>

theorem C2_missing_field_counterexample:
  "Job_init 0 example_fields = Inr example_job
   \<and> Job_getattr example_job ''queue'' = Inl (KeyError ''queue'')
   \<and> Job_getattr example_job ''queue'' \<noteq> Inl AttributeError"
  by (simp add: Job_init_def example_fields_def example_job_def Job_getattr_def
      Job_getattr_hook_def Job_class_attrs_def)

text \<open>
  C2 (amended). For every job handle and every field name that the server did not supply
  (absent from the stored mapping) and that ordinary attribute lookup does not find (not
  in the instance dictionary, not bound by the class, not one of the two special names),
  reading the field raises \<^verbatim>\<open>KeyError\<close> with the field name: the failure of the lookup
  in the stored mapping, and not an attribute-not-found condition.
\<close>

theorem C2_missing_field_is_key_error:
  assumes "self ''_data'' = Some (AJson (JObj kvs))"
    and "map_of kvs attr = None"
    and "self attr = None"
    and "attr \<notin> set Job_class_attrs"
    and "attr \<noteq> ''__dict__''" and "attr \<noteq> ''__class__''"
  shows "Job_getattr self attr = Inl (KeyError attr)"
  using assms by (simp add: Job_getattr_def Job_getattr_hook_def)

theorem C2_missing_field_witness:
  "example_job ''_data'' = Some (AJson (JObj example_fields))
   \<and> map_of example_fields ''queue'' = None
   \<and> example_job ''queue'' = None
   \<and> ''queue'' \<notin> set Job_class_attrs
   \<and> Job_getattr example_job ''queue'' = Inl (KeyError ''queue'')"
proof -
  have a: "example_job ''_data'' = Some (AJson (JObj example_fields))"
    by (simp add: example_job_def)
  have b: "map_of example_fields ''queue'' = None"
    by (simp add: example_fields_def)
  have c: "example_job ''queue'' = None"
    by (simp add: example_job_def)
  have d: "''queue'' \<notin> set Job_class_attrs"
    by (simp add: Job_class_attrs_def)
  from C2_missing_field_is_key_error [OF a b c d] a b c d show ?thesis by simp
qed

subsection \<open>Submitting a job\<close>

text \<open>
  C3. For every valid machine and every non-empty jobfile path, queue_submit POSTs form
  data that carries the given jobfile and an empty jobscript, and the whole call is the
  same whatever job script was supplied; when jobfile is absent, the text of the job
  script is POSTed with an empty jobfile.
\<close>

theorem C3_jobfile_takes_precedence:
  assumes "machine \<in> set NEWT_MACHINES"
  shows "(jobfile \<noteq> [] \<longrightarrow>
           sent (snd (NEWT_queue_submit self machine jobscript (Some jobfile) w)) =
             sent w @ [(session self,
               (mk_request POST (NEWT_BASE_URL @ ''/queue/'' @ machine))
                 \<lparr>rdata := [(''jobscript'', JStr ''''), (''jobfile'', JStr jobfile)]\<rparr>)]
           \<and> NEWT_queue_submit self machine jobscript (Some jobfile) w =
             NEWT_queue_submit self machine other_jobscript (Some jobfile) w)
       \<and> sent (snd (NEWT_queue_submit self machine jobscript None w)) =
           sent w @ [(session self,
             (mk_request POST (NEWT_BASE_URL @ ''/queue/'' @ machine))
               \<lparr>rdata := [(''jobscript'', JStr (jobscript_text jobscript)),
                          (''jobfile'', JStr '''')]\<rparr>)]"
  using assms
  by (auto simp: NEWT_queue_submit_def send_def Let_def split: sum.splits prod.splits)

theorem C3_jobfile_witness:
  "''hopper'' \<in> set NEWT_MACHINES
   \<and> map (rdata \<circ> snd) (sent (snd (NEWT_queue_submit client0 ''hopper'' (Script ''echo hi'')
        (Some ''/home/u/job.pbs'') (world_of (\<lambda>req. Inr (ok_json JNull))))))
      = [[(''jobscript'', JStr ''''), (''jobfile'', JStr ''/home/u/job.pbs'')]]
   \<and> map (rdata \<circ> snd) (sent (snd (NEWT_queue_submit client0 ''hopper'' (Script ''echo hi'')
        None (world_of (\<lambda>req. Inr (ok_json JNull))))))
      = [[(''jobscript'', JStr ''echo hi''), (''jobfile'', JStr '''')]]"
proof -
  have h: "''hopper'' \<in> set NEWT_MACHINES"
    by (simp add: NEWT_MACHINES_def)
  from C3_jobfile_takes_precedence [OF h, of "''/home/u/job.pbs''" client0 "Script ''echo hi''"
      "world_of (\<lambda>req. Inr (ok_json JNull))"]
  show ?thesis using h by (simp add: world_of_def)
qed

subsection \<open>Refreshing a job handle\<close>

lemma Job_update_world:
  assumes "Job_url self = Inr url" and "Job_session self = Inr s"
  shows "snd (snd (Job_update self w)) = w\<lparr>sent := sent w @ [(s, mk_request GET url)]\<rparr>"
  using assms
  by (simp add: Job_update_def send_def split: sum.split prod.split option.split)

text \<open>
  A handle as \<^verbatim>\<open>Job(session, **kwargs)\<close> makes it reads its session, and reads from
  the stored mapping every field whose name is not one the instance or the class uses.
\<close>

lemma Job_init_reads:
  assumes "Job_init s kwargs = Inr self"
  shows "Job_getattr self ''_session'' = Inr (ASession s)"
    and "map_of kwargs attr = Some v \<Longrightarrow>
         attr \<notin> {''__dict__'', ''__class__'', ''_session'', ''_data''} \<Longrightarrow>
         attr \<notin> set Job_class_attrs \<Longrightarrow>
         Job_getattr self attr = Inr (AJson v)"
proof -
  from assms have self: "self = [''_session'' \<mapsto> ASession s, ''_data'' \<mapsto> AJson (JObj kwargs)]"
    by (cases "''self'' \<in> fst ` set kwargs \<or> ''session'' \<in> fst ` set kwargs")
      (simp_all add: Job_init_def)
  show "Job_getattr self ''_session'' = Inr (ASession s)"
    by (simp add: self Job_getattr_def)
  assume "map_of kwargs attr = Some v"
    and "attr \<notin> {''__dict__'', ''__class__'', ''_session'', ''_data''}"
    and "attr \<notin> set Job_class_attrs"
  then show "Job_getattr self attr = Inr (AJson v)"
    by (simp add: self Job_getattr_def Job_getattr_hook_def)
qed

text \<open>
  C4. For every job handle whose jobid and hostname read as strings (from the stored
  mapping, as \<open>Job_init_reads\<close> shows for a handle that queue_stat has just made, or from
  an attribute that an earlier refresh has set), \<^verbatim>\<open>update\<close> issues one GET, through
  the handle's session, to the base URL followed by \<^verbatim>\<open>/queue/\<close>, the hostname, a slash
  and the part of the jobid before its first dot.
\<close>

theorem C4_refresh_endpoint:
  assumes "Job_getattr self ''jobid'' = Inr (AJson (JStr jobid))"
    and "Job_getattr self ''hostname'' = Inr (AJson (JStr hostname))"
    and "Job_getattr self ''_session'' = Inr (ASession s)"
  shows "sent (snd (snd (Job_update self w))) =
           sent w @ [(s, mk_request GET
             (NEWT_BASE_URL @ ''/queue/'' @ hostname @ ''/''
                @ takeWhile (\<lambda>c. c \<noteq> CHR ''.'') jobid))]"
proof -
  have u: "Job_url self =
      Inr (NEWT_BASE_URL @ ''/queue/'' @ hostname @ ''/'' @ takeWhile (\<lambda>c. c \<noteq> CHR ''.'') jobid)"
    using assms(1,2) by (simp add: Job_url_def py_first_split)
  have s: "Job_session self = Inr s"
    using assms(3) by (simp add: Job_session_def)
  show ?thesis
    by (simp add: Job_update_world [OF u s])
qed

text \<open>The scenario of the specification: job 12345 on exampleMachine.\<close>

theorem C4_refresh_endpoint_witness:
  "Job_init 0 example_fields = Inr example_job
   \<and> Job_getattr example_job ''jobid'' = Inr (AJson (JStr ''12345.server''))
   \<and> Job_getattr example_job ''hostname'' = Inr (AJson (JStr ''exampleMachine''))
   \<and> Job_getattr example_job ''_session'' = Inr (ASession 0)
   \<and> sent (snd (snd (Job_update example_job (world_of (\<lambda>req. Inl ConnectionError))))) =
       [(0, mk_request GET ''https://newt.nersc.gov/newt/queue/exampleMachine/12345'')]"
proof -
  have a: "Job_getattr example_job ''jobid'' = Inr (AJson (JStr ''12345.server''))"
    by (simp add: example_job_def example_fields_def Job_getattr_def Job_getattr_hook_def
        Job_class_attrs_def)
  have b: "Job_getattr example_job ''hostname'' = Inr (AJson (JStr ''exampleMachine''))"
    by (simp add: example_job_def example_fields_def Job_getattr_def Job_getattr_hook_def
        Job_class_attrs_def)
  have c: "Job_getattr example_job ''_session'' = Inr (ASession 0)"
    by (simp add: example_job_def Job_getattr_def)
  have d: "Job_init 0 example_fields = Inr example_job"
    by (simp add: Job_init_def example_fields_def example_job_def)
  from C4_refresh_endpoint [OF a b c, of "world_of (\<lambda>req. Inl ConnectionError)"] a b c d
  show ?thesis by (simp add: world_of_def NEWT_BASE_URL_def)
qed













subsection \<open>Downloading a file\<close>

lemma py_last_split:
  "py_index (py_split s c) (- 1) = Inr (rev (takeWhile (\<lambda>x. x \<noteq> c) (rev s)))"
proof -
  have ne: "py_split s c \<noteq> []"
    by (rule py_split_nonempty)
  then have len: "0 < length (py_split s c)"
    by simp
  then have "nat (int (length (py_split s c)) + - 1) = length (py_split s c) - 1"
    by simp
  with ne len last_py_split [of s c] show ?thesis
    by (simp add: py_index_def last_conv_nth Suc_le_eq)
qed

lemma write_chunks_appends:
  "files w path = Some old \<Longrightarrow>
   write_chunks path cs w =
     w\<lparr>files := (files w)(path \<mapsto> old @ concat (filter (\<lambda>c. c \<noteq> []) cs))\<rparr>"
proof (induction cs arbitrary: w old)
  case Nil
  then have "(files w)(path \<mapsto> old) = files w"
    by (simp add: map_upd_triv)
  then show ?case by simp
next
  case (Cons c cs)
  show ?case
  proof (cases "c = []")
    case True
    with Cons show ?thesis by simp
  next
    case False
    have f: "files (file_write path c w) path = Some (old @ c)"
      using Cons.prems by (simp add: file_write_def)
    have "write_chunks path (c # cs) w = write_chunks path cs (file_write path c w)"
      using False by simp
    also have "\<dots> = (file_write path c w)
        \<lparr>files := (files (file_write path c w))
           (path \<mapsto> (old @ c) @ concat (filter (\<lambda>c. c \<noteq> []) cs))\<rparr>"
      by (rule Cons.IH [OF f])
    also have "\<dots> = w\<lparr>files := (files w)(path \<mapsto> old @ concat (filter (\<lambda>c. c \<noteq> []) (c # cs)))\<rparr>"
      using False Cons.prems by (simp add: file_write_def)
    finally show ?thesis .
  qed
qed

text \<open>
  A remote path that ends in a slash has an empty final segment: the request goes out,
  \<^verbatim>\<open>open('', 'wb')\<close> raises, no local file changes and no path is returned.
\<close>

theorem C6_download_counterexample:
  "''hopper'' \<in> set NEWT_MACHINES
   \<and> fst (NEWT_download client0 ''hopper'' ''/scratch/u/'' None download_world) = Inl IOError
   \<and> files (snd (NEWT_download client0 ''hopper'' ''/scratch/u/'' None download_world))
       = files download_world
   \<and> map (rurl \<circ> snd) (sent (snd (NEWT_download client0 ''hopper'' ''/scratch/u/'' None download_world)))
       = [''https://newt.nersc.gov/newt/file/hopper/scratch/u/'']"
  by (simp add: NEWT_download_def NEWT_MACHINES_def py_index_def send_def checked_def open_wb_def
      download_world_def world_of_def ok_chunks_def client0_def mk_request_def NEWT_BASE_URL_def)

text \<open>
  C6 (amended). For every valid machine and remote path, when the GET is answered with a
  status that passes the check and the final segment of the remote path (the text after
  its last slash) is a local name that can be opened for writing, \<^verbatim>\<open>download\<close> with no
  explicit local path leaves in the local file of that name exactly the non-empty
  streamed chunks, concatenated in order, whatever the file held before, and returns that
  name. When the final segment is empty (the remote path is empty or ends in a slash)
  the request is still issued, opening the local file then raises \<^verbatim>\<open>IOError\<close>, and
  no file is written.
\<close>

theorem C6_download_writes_final_segment:
  assumes "machine \<in> set NEWT_MACHINES"
    and "req = (mk_request GET (NEWT_BASE_URL @ ''/file/'' @ machine @ remote_path))
                 \<lparr>rparams := [(''view'', JStr ''read'')], rstream := True\<rparr>"
    and "server w (sent w) (session self) req = Inr resp"
    and "\<not> http_error resp"
    and "segment = rev (takeWhile (\<lambda>c. c \<noteq> CHR ''/'') (rev remote_path))"
    and "segment \<notin> unwritable w"
  shows "NEWT_download self machine remote_path None w =
           (if segment = [] then (Inl IOError, w\<lparr>sent := sent w @ [(session self, req)]\<rparr>)
            else (Inr (Value (JStr segment)),
                  w\<lparr>sent := sent w @ [(session self, req)],
                    files := (files w)(segment \<mapsto> concat (filter (\<lambda>c. c \<noteq> []) (chunks resp)))\<rparr>))"
proof -
  let ?w1 = "w\<lparr>sent := sent w @ [(session self, req)]\<rparr>"
  have snd: "send (session self) req w = (Inr resp, ?w1)"
    using assms(3) by (simp add: send_def)
  have chk: "checked (Inr resp) = Inr resp"
    using assms(4) by (simp add: checked_def)
  show ?thesis
  proof (cases "segment = []")
    case True
    then have "open_wb segment ?w1 = Inl IOError"
      by (simp add: open_wb_def)
    with True snd chk assms(1,2,5) show ?thesis
      by (simp add: NEWT_download_def py_last_split)
  next
    case False
    let ?w2 = "?w1\<lparr>files := (files ?w1)(segment \<mapsto> [])\<rparr>"
    have op: "open_wb segment ?w1 = Inr ?w2"
      using False assms(6) by (simp add: open_wb_def)
    have "files ?w2 segment = Some []"
      by simp
    from write_chunks_appends [OF this, of "chunks resp"]
    have "write_chunks segment (chunks resp) ?w2 =
        w\<lparr>sent := sent w @ [(session self, req)],
          files := (files w)(segment \<mapsto> concat (filter (\<lambda>c. c \<noteq> []) (chunks resp)))\<rparr>"
      by simp
    with False snd chk op assms(1,2,5) show ?thesis
      by (simp add: NEWT_download_def py_last_split)
  qed
qed

theorem C6_download_witness:
  "''hopper'' \<in> set NEWT_MACHINES
   \<and> ''data.bin'' = rev (takeWhile (\<lambda>c. c \<noteq> CHR ''/'') (rev ''/home/u/data.bin''))
   \<and> files download_world ''data.bin'' = Some ''stale''
   \<and> fst (NEWT_download client0 ''hopper'' ''/home/u/data.bin'' None download_world)
       = Inr (Value (JStr ''data.bin''))
   \<and> files (snd (NEWT_download client0 ''hopper'' ''/home/u/data.bin'' None download_world))
        ''data.bin'' = Some ''abcd''"
proof -
  let ?req = "(mk_request GET (NEWT_BASE_URL @ ''/file/'' @ ''hopper'' @ ''/home/u/data.bin''))
                 \<lparr>rparams := [(''view'', JStr ''read'')], rstream := True\<rparr>"
  have m: "''hopper'' \<in> set NEWT_MACHINES"
    by (simp add: NEWT_MACHINES_def)
  have srv: "server download_world (sent download_world) (session client0) ?req
      = Inr (ok_chunks [''ab'', '''', ''cd''])"
    by (simp add: download_world_def world_of_def)
  have ok: "\<not> http_error (ok_chunks [''ab'', '''', ''cd''])"
    by (simp add: ok_chunks_def)
  have seg: "''data.bin'' = rev (takeWhile (\<lambda>c. c \<noteq> CHR ''/'') (rev ''/home/u/data.bin''))"
    by simp
  have wr: "''data.bin'' \<notin> unwritable download_world"
    by (simp add: download_world_def world_of_def)
  have old: "files download_world ''data.bin'' = Some ''stale''"
    by (simp add: download_world_def)
  from C6_download_writes_final_segment [OF m refl srv ok seg wr] m seg old show ?thesis
    by (simp add: ok_chunks_def)
qed

subsection \<open>Uploading a file\<close>

lemma NEWT_upload_valid:
  assumes "machine \<in> set NEWT_MACHINES"
    and "filename = rev (takeWhile (\<lambda>c. c \<noteq> CHR ''/'') (rev remote_path))"
    and "req = (mk_request POST (NEWT_BASE_URL @ ''/file/'' @ machine @ fst (os_path_split remote_path)))
                 \<lparr>rfiles := [(''file'', (if filename \<noteq> [] then filename else name fobj, fobj))]\<rparr>"
  shows "NEWT_upload self machine remote_path fobj w =
           (case checked (server w (sent w) (session self) req) of
              Inl e \<Rightarrow> Inl e | Inr resp \<Rightarrow> Inr (Value (JBool True)),
            w\<lparr>sent := sent w @ [(session self, req)]\<rparr>)"
proof -
  obtain d f where sp: "os_path_split remote_path = (d, f)"
    by (cases "os_path_split remote_path")
  then have f: "f = filename"
    using os_path_split_tail [of remote_path] assms(2) by simp
  from sp f assms(1,3) show ?thesis
    by (simp add: NEWT_upload_def send_def split: sum.split)
qed

text \<open>
  C7. For every valid machine, \<^verbatim>\<open>upload\<close> issues one POST whose multipart file entry is
  named by the filename component of the remote path (the text after its last slash, the
  tail of \<^verbatim>\<open>os.path.split\<close>) whenever that component is not empty, and by the name of
  the source file object otherwise; when the answer passes the status check, the call
  returns \<^verbatim>\<open>True\<close>.
\<close>

theorem C7_upload_filename:
  assumes "machine \<in> set NEWT_MACHINES"
    and "filename = rev (takeWhile (\<lambda>c. c \<noteq> CHR ''/'') (rev remote_path))"
    and "req = (mk_request POST (NEWT_BASE_URL @ ''/file/'' @ machine @ fst (os_path_split remote_path)))
                 \<lparr>rfiles := [(''file'', (if filename \<noteq> [] then filename else name fobj, fobj))]\<rparr>"
  shows "sent (snd (NEWT_upload self machine remote_path fobj w)) = sent w @ [(session self, req)]
       \<and> filename = snd (os_path_split remote_path)
       \<and> (\<forall>resp. server w (sent w) (session self) req = Inr resp \<and> \<not> http_error resp \<longrightarrow>
            fst (NEWT_upload self machine remote_path fobj w) = Inr (Value (JBool True)))"
  using assms(2) os_path_split_tail [of remote_path]
  by (simp add: NEWT_upload_valid [OF assms] checked_def)

theorem C7_upload_filename_witness:
  "''hopper'' \<in> set NEWT_MACHINES
   \<and> map (rfiles \<circ> snd) (sent (snd (NEWT_upload client0 ''hopper'' ''/home/u/remote.txt'' example_file
        (world_of (\<lambda>req. Inr (ok_json JNull))))))
       = [[(''file'', (''remote.txt'', example_file))]]
   \<and> map (rfiles \<circ> snd) (sent (snd (NEWT_upload client0 ''hopper'' ''/home/u/'' example_file
        (world_of (\<lambda>req. Inr (ok_json JNull))))))
       = [[(''file'', (''local.txt'', example_file))]]
   \<and> fst (NEWT_upload client0 ''hopper'' ''/home/u/remote.txt'' example_file
        (world_of (\<lambda>req. Inr (ok_json JNull)))) = Inr (Value (JBool True))"
proof -
  let ?W = "world_of (\<lambda>req. Inr (ok_json JNull))"
  have m: "''hopper'' \<in> set NEWT_MACHINES"
    by (simp add: NEWT_MACHINES_def)
  have f1: "''remote.txt'' = rev (takeWhile (\<lambda>c. c \<noteq> CHR ''/'') (rev ''/home/u/remote.txt''))"
    by simp
  have f2: "'''' = rev (takeWhile (\<lambda>c. c \<noteq> CHR ''/'') (rev ''/home/u/''))"
    by simp
  have n: "name example_file = ''local.txt''"
    by (simp add: example_file_def)
  have srv: "\<And>req. server ?W (sent ?W) (session client0) req = Inr (ok_json JNull)"
    by (simp add: world_of_def)
  have ok: "\<not> http_error (ok_json JNull)"
    by (simp add: ok_json_def)
  from C7_upload_filename [OF m f1 refl, where fobj = example_file and self = client0
         and w = "world_of (\<lambda>req. Inr (ok_json JNull))"]
       C7_upload_filename [OF m f2 refl, where fobj = example_file and self = client0
         and w = "world_of (\<lambda>req. Inr (ok_json JNull))"] m n srv ok
  show ?thesis
    by (simp add: world_of_def)
qed

subsection \<open>The URLs of the file operations\<close>

text \<open>
  An upload to \<^verbatim>\<open>/home/u/remote.txt\<close> is POSTed to the URL of the directory
  \<^verbatim>\<open>/home/u\<close>, not to the concatenation with the caller's remote path.
\<close>

theorem C10_upload_url_counterexample:
  "''hopper'' \<in> set NEWT_MACHINES
   \<and> map (rurl \<circ> snd) (sent (snd (NEWT_upload client0 ''hopper'' ''/home/u/remote.txt'' example_file
        (world_of (\<lambda>req. Inr (ok_json JNull))))))
       = [''https://newt.nersc.gov/newt/file/hopper/home/u'']
   \<and> NEWT_BASE_URL @ ''/file/'' @ ''hopper'' @ ''/home/u/remote.txt''
       = ''https://newt.nersc.gov/newt/file/hopper/home/u/remote.txt''"
  by (simp add: NEWT_upload_def NEWT_MACHINES_def os_path_split_def rstrip_slash_def Let_def
      send_def world_of_def mk_request_def NEWT_BASE_URL_def checked_def ok_json_def)

lemma sent_write_chunks: "sent (write_chunks path cs w) = sent w"
  by (induction cs arbitrary: w) (simp_all add: file_write_def)

lemma NEWT_download_sent:
  assumes "machine \<in> set NEWT_MACHINES"
  shows "sent (snd (NEWT_download self machine remote_path local_path w)) =
           sent w @ [(session self,
             (mk_request GET (NEWT_BASE_URL @ ''/file/'' @ machine @ remote_path))
               \<lparr>rparams := [(''view'', JStr ''read'')], rstream := True\<rparr>)]"
  using assms
  by (auto simp: NEWT_download_def py_last_split send_def Let_def sent_write_chunks open_wb_def
      split: sum.split if_splits)

text \<open>
  C10 (amended). For every valid machine, the request URLs of \<^verbatim>\<open>list\<close> and
  \<^verbatim>\<open>download\<close> are the literal concatenation of the base URL, \<^verbatim>\<open>/file/\<close>, the
  machine name and the caller's remote path, with no separator inserted between machine
  and path: the URL has a slash after the machine name exactly when the remote path
  begins with one. The URL of \<^verbatim>\<open>upload\<close> ends, in the place of the remote path, with
  its directory part only (the head of \<^verbatim>\<open>os.path.split\<close>).
\<close>

theorem C10_file_urls:
  assumes "machine \<in> set NEWT_MACHINES"
  shows "map (rurl \<circ> snd) (sent (snd (NEWT_list self machine remote_path w))) =
           map (rurl \<circ> snd) (sent w) @ [NEWT_BASE_URL @ ''/file/'' @ machine @ remote_path]
       \<and> map (rurl \<circ> snd) (sent (snd (NEWT_download self machine remote_path local_path w))) =
           map (rurl \<circ> snd) (sent w) @ [NEWT_BASE_URL @ ''/file/'' @ machine @ remote_path]
       \<and> map (rurl \<circ> snd) (sent (snd (NEWT_upload self machine remote_path fobj w))) =
           map (rurl \<circ> snd) (sent w)
             @ [NEWT_BASE_URL @ ''/file/'' @ machine @ fst (os_path_split remote_path)]
       \<and> ((NEWT_BASE_URL @ ''/file/'' @ machine @ remote_path =
             NEWT_BASE_URL @ ''/file/'' @ machine @ ''/'' @ rest) = (remote_path = ''/'' @ rest))"
proof -
  have l: "map (rurl \<circ> snd) (sent (snd (NEWT_list self machine remote_path w))) =
           map (rurl \<circ> snd) (sent w) @ [NEWT_BASE_URL @ ''/file/'' @ machine @ remote_path]"
    using assms
    by (simp add: NEWT_list_def send_def mk_request_def Let_def split: sum.split)
  have d: "map (rurl \<circ> snd) (sent (snd (NEWT_download self machine remote_path local_path w))) =
           map (rurl \<circ> snd) (sent w) @ [NEWT_BASE_URL @ ''/file/'' @ machine @ remote_path]"
    by (simp add: NEWT_download_sent [OF assms] mk_request_def)
  have u: "map (rurl \<circ> snd) (sent (snd (NEWT_upload self machine remote_path fobj w))) =
           map (rurl \<circ> snd) (sent w)
             @ [NEWT_BASE_URL @ ''/file/'' @ machine @ fst (os_path_split remote_path)]"
    by (simp add: NEWT_upload_valid [OF assms refl refl] mk_request_def)
  from l d u show ?thesis by simp
qed

theorem C10_file_urls_witness:
  "''hopper'' \<in> set NEWT_MACHINES
   \<and> map (rurl \<circ> snd) (sent (snd (NEWT_list client0 ''hopper'' ''/home/u''
        (world_of (\<lambda>req. Inr (ok_json JNull))))))
       = [''https://newt.nersc.gov/newt/file/hopper/home/u'']
   \<and> map (rurl \<circ> snd) (sent (snd (NEWT_list client0 ''hopper'' ''home/u''
        (world_of (\<lambda>req. Inr (ok_json JNull))))))
       = [''https://newt.nersc.gov/newt/file/hopperhome/u'']"
proof -
  have m: "''hopper'' \<in> set NEWT_MACHINES"
    by (simp add: NEWT_MACHINES_def)
  from C10_file_urls [OF m, where self = client0 and remote_path = "''/home/u''"
         and w = "world_of (\<lambda>req. Inr (ok_json JNull))"]
       C10_file_urls [OF m, where self = client0 and remote_path = "''home/u''"
         and w = "world_of (\<lambda>req. Inr (ok_json JNull))"] m
  show ?thesis
    by (simp add: world_of_def NEWT_BASE_URL_def)
qed

subsection \<open>Logging in\<close>

lemma NEWT_login_fst:
  "fst (NEWT_login self username password w) =
     (case checked_json (server w (sent w) (session self) (login_request username password)) of
        Inl e \<Rightarrow> Inl e | Inr body \<Rightarrow> login_result username body)"
  by (simp add: NEWT_login_def send_def split: sum.split)

lemma NEWT_init_fst:
  "fst (NEWT_init username password w) =
     (case fst (NEWT_login \<lparr>session = next_ref w\<rparr> username password
                 (w\<lparr>next_ref := Suc (next_ref w)\<rparr>)) of
        Inl e \<Rightarrow> Inl e
      | Inr v \<Rightarrow> Inr \<lparr>session = next_ref w\<rparr>)"
  by (simp add: NEWT_init_def new_session_def Let_def split: prod.split sum.split)

text \<open>
  C8. Let the server answer the login request. If the answer fails the status check,
  \<^verbatim>\<open>login\<close> raises the transport error whatever the body holds. If it passes and the
  body reports the auth flag false, or reports it true with an echoed username other than
  the one given, \<^verbatim>\<open>login\<close> raises the authentication error
  \<^verbatim>\<open>ValueError('Could not get authorized connection to NEWT!')\<close>. If the flag is true
  and the echoed username is the one given, \<^verbatim>\<open>login\<close> returns the flag. The
  constructor makes a fresh session, calls \<^verbatim>\<open>login\<close> on it and raises whatever it
  raises.
\<close>

theorem C8_login_outcomes:
  assumes "server w (sent w) (session self) (login_request username password) = Inr resp"
  shows "(http_error resp \<longrightarrow> fst (NEWT_login self username password w) = Inl HTTPError)
       \<and> (\<not> http_error resp \<and> json_body resp = Some (JObj kvs)
            \<and> map_of kvs ''auth'' = Some (JBool False) \<longrightarrow>
          fst (NEWT_login self username password w) =
            Inl (ValueError ''Could not get authorized connection to NEWT!''))
       \<and> (\<not> http_error resp \<and> json_body resp = Some (JObj kvs)
            \<and> map_of kvs ''auth'' = Some (JBool True)
            \<and> map_of kvs ''username'' = Some echoed \<and> echoed \<noteq> JStr username \<longrightarrow>
          fst (NEWT_login self username password w) =
            Inl (ValueError ''Could not get authorized connection to NEWT!''))
       \<and> (\<not> http_error resp \<and> json_body resp = Some (JObj kvs)
            \<and> map_of kvs ''auth'' = Some (JBool True)
            \<and> map_of kvs ''username'' = Some (JStr username) \<longrightarrow>
          fst (NEWT_login self username password w) = Inr (Value (JBool True)))
       \<and> fst (NEWT_init username password w0) =
           (case fst (NEWT_login \<lparr>session = next_ref w0\<rparr> username password
                       (w0\<lparr>next_ref := Suc (next_ref w0)\<rparr>)) of
              Inl e \<Rightarrow> Inl e
            | Inr v \<Rightarrow> Inr \<lparr>session = next_ref w0\<rparr>)"
proof -
  have a: "http_error resp \<longrightarrow> fst (NEWT_login self username password w) = Inl HTTPError"
    using assms by (simp add: NEWT_login_fst checked_json_def checked_def)
  have b: "\<not> http_error resp \<and> json_body resp = Some (JObj kvs)
            \<and> map_of kvs ''auth'' = Some (JBool False) \<longrightarrow>
          fst (NEWT_login self username password w) =
            Inl (ValueError ''Could not get authorized connection to NEWT!'')"
    using assms
    by (simp add: NEWT_login_fst checked_json_def checked_def resp_json_def login_result_def)
  have c: "\<not> http_error resp \<and> json_body resp = Some (JObj kvs)
            \<and> map_of kvs ''auth'' = Some (JBool True)
            \<and> map_of kvs ''username'' = Some echoed \<and> echoed \<noteq> JStr username \<longrightarrow>
          fst (NEWT_login self username password w) =
            Inl (ValueError ''Could not get authorized connection to NEWT!'')"
    using assms
    by (simp add: NEWT_login_fst checked_json_def checked_def resp_json_def login_result_def)
  have d: "\<not> http_error resp \<and> json_body resp = Some (JObj kvs)
            \<and> map_of kvs ''auth'' = Some (JBool True)
            \<and> map_of kvs ''username'' = Some (JStr username) \<longrightarrow>
          fst (NEWT_login self username password w) = Inr (Value (JBool True))"
    using assms
    by (simp add: NEWT_login_fst checked_json_def checked_def resp_json_def login_result_def)
  from a b c d NEWT_init_fst [of username password w0] show ?thesis
    by blast
qed

theorem C8_login_witness:
  "fst (NEWT_login client0 ''alice'' ''secret'' (login_world True True ''alice''))
     = Inl HTTPError
   \<and> fst (NEWT_login client0 ''alice'' ''secret'' (login_world False False ''alice''))
     = Inl (ValueError ''Could not get authorized connection to NEWT!'')
   \<and> fst (NEWT_login client0 ''alice'' ''secret'' (login_world False True ''bob''))
     = Inl (ValueError ''Could not get authorized connection to NEWT!'')
   \<and> fst (NEWT_login client0 ''alice'' ''secret'' (login_world False True ''alice''))
     = Inr (Value (JBool True))
   \<and> fst (NEWT_init ''alice'' ''secret'' (login_world False True ''bob''))
     = Inl (ValueError ''Could not get authorized connection to NEWT!'')
   \<and> fst (NEWT_init ''alice'' ''secret'' (login_world False True ''alice''))
     = Inr \<lparr>session = 0\<rparr>"
proof -
  have srv: "server (login_world e a u) (sent (login_world e a u)) (session c)
      (login_request ''alice'' ''secret'') = Inr (login_answer e a u)" for e a u c
    by (simp add: login_world_def world_of_def)
  have srv': "server ((login_world e a u)\<lparr>next_ref := Suc 0\<rparr>)
      (sent ((login_world e a u)\<lparr>next_ref := Suc 0\<rparr>)) (session c)
      (login_request ''alice'' ''secret'') = Inr (login_answer e a u)" for e a u c
    by (simp add: login_world_def world_of_def)
  have nx: "next_ref (login_world e a u) = 0" for e a u
    by (simp add: login_world_def world_of_def)
  have err: "http_error (login_answer e a u) = e" for e a u
    by (simp add: login_answer_def)
  have body: "json_body (login_answer e a u)
      = Some (JObj [(''auth'', JBool a), (''username'', JStr u)])" for e a u
    by (simp add: login_answer_def)
  have l1: "fst (NEWT_login client0 ''alice'' ''secret'' (login_world True True ''alice''))
     = Inl HTTPError"
    using C8_login_outcomes [OF srv [of True True "''alice''" client0]]
    by (simp add: err)
  have l2: "fst (NEWT_login client0 ''alice'' ''secret'' (login_world False False ''alice''))
     = Inl (ValueError ''Could not get authorized connection to NEWT!'')"
    using C8_login_outcomes [OF srv [of False False "''alice''" client0],
        where kvs = "[(''auth'', JBool False), (''username'', JStr ''alice'')]"]
    by (simp add: err body)
  have l3: "fst (NEWT_login c ''alice'' ''secret'' (login_world False True ''bob''))
     = Inl (ValueError ''Could not get authorized connection to NEWT!'')" for c
    using C8_login_outcomes [OF srv [of False True "''bob''" c],
        where kvs = "[(''auth'', JBool True), (''username'', JStr ''bob'')]"
          and echoed = "JStr ''bob''"]
    by (simp add: err body)
  have l4: "fst (NEWT_login client0 ''alice'' ''secret'' (login_world False True ''alice''))
     = Inr (Value (JBool True))"
    using C8_login_outcomes [OF srv [of False True "''alice''" client0],
        where kvs = "[(''auth'', JBool True), (''username'', JStr ''alice'')]"]
    by (simp add: err body)
  have l5: "fst (NEWT_login \<lparr>session = 0\<rparr> ''alice'' ''secret''
       ((login_world False True ''bob'')\<lparr>next_ref := Suc 0\<rparr>))
     = Inl (ValueError ''Could not get authorized connection to NEWT!'')"
    using C8_login_outcomes [OF srv' [of False True "''bob''" "\<lparr>session = 0\<rparr>"],
        where kvs = "[(''auth'', JBool True), (''username'', JStr ''bob'')]"
          and echoed = "JStr ''bob''"]
    by (simp add: err body)
  have l6: "fst (NEWT_login \<lparr>session = 0\<rparr> ''alice'' ''secret''
       ((login_world False True ''alice'')\<lparr>next_ref := Suc 0\<rparr>))
     = Inr (Value (JBool True))"
    using C8_login_outcomes [OF srv' [of False True "''alice''" "\<lparr>session = 0\<rparr>"],
        where kvs = "[(''auth'', JBool True), (''username'', JStr ''alice'')]"]
    by (simp add: err body)
  have i3: "fst (NEWT_init ''alice'' ''secret'' (login_world False True ''bob''))
     = Inl (ValueError ''Could not get authorized connection to NEWT!'')"
    using C8_login_outcomes [OF srv [of False True "''bob''" client0],
        where ?w0.0 = "login_world False True ''bob''"] l5
    by (simp add: nx)
  have i4: "fst (NEWT_init ''alice'' ''secret'' (login_world False True ''alice''))
     = Inr \<lparr>session = 0\<rparr>"
    using C8_login_outcomes [OF srv [of False True "''alice''" client0],
        where ?w0.0 = "login_world False True ''alice''"] l6
    by (simp add: nx)
  from l1 l2 l3 [of client0] l4 i3 i4 show ?thesis by simp
qed

subsection \<open>Listing the queue\<close>

lemma make_jobs_objects:
  assumes "\<forall>kvs \<in> set entries. ''self'' \<notin> fst ` set kvs \<and> ''session'' \<notin> fst ` set kvs"
  shows "make_jobs s (map JObj entries) =
           Inr (map (\<lambda>kvs. [''_session'' \<mapsto> ASession s, ''_data'' \<mapsto> AJson (JObj kvs)]) entries)"
  using assms by (induction entries) (simp_all add: Job_init_def)

text \<open>
  An entry with a field named \<^verbatim>\<open>session\<close> collides with the parameter of
  \<^verbatim>\<open>Job.__init__\<close>: the listing raises \<^verbatim>\<open>TypeError\<close> and returns no handle.
\<close>

theorem C9_queue_stat_counterexample:
  "''hopper'' \<in> set NEWT_MACHINES
   \<and> fst (NEWT_queue_stat client0 ''hopper'' (JInt 0) (JInt 10) []
        (world_of (\<lambda>req. Inr (ok_json colliding_queue)))) = Inl TypeError"
  by (simp add: NEWT_queue_stat_def NEWT_MACHINES_def send_def world_of_def ok_json_def
      checked_json_def checked_def resp_json_def iterate_def colliding_queue_def Job_init_def Let_def)

text \<open>
  C9 (amended). For every valid machine, when the answer passes the status check and
  decodes to a sequence of entries none of which has a field named \<^verbatim>\<open>self\<close> or
  \<^verbatim>\<open>session\<close> (the parameters of \<^verbatim>\<open>Job.__init__\<close>), \<^verbatim>\<open>queue_stat\<close> returns one
  handle per entry, in the order of the sequence, each with the entry's fields as its
  stored mapping and the client's session as its session.
\<close>

theorem C9_queue_stat_handles:
  assumes "machine \<in> set NEWT_MACHINES"
    and "req = (mk_request GET (NEWT_BASE_URL @ ''/queue/'' @ machine))
                 \<lparr>rparams := dict_update [(''index'', index), (''limit'', limit)] kwargs\<rparr>"
    and "server w (sent w) (session self) req = Inr resp"
    and "\<not> http_error resp"
    and "json_body resp = Some (JArr (map JObj entries))"
    and "\<forall>kvs \<in> set entries. ''self'' \<notin> fst ` set kvs \<and> ''session'' \<notin> fst ` set kvs"
  shows "fst (NEWT_queue_stat self machine index limit kwargs w) =
           Inr (Jobs (map (\<lambda>kvs. [''_session'' \<mapsto> ASession (session self),
                                   ''_data'' \<mapsto> AJson (JObj kvs)]) entries))"
proof -
  have "checked_json (server w (sent w) (session self) req) = Inr (JArr (map JObj entries))"
    using assms(3,4,5) by (simp add: checked_json_def checked_def resp_json_def)
  with assms(1,2) make_jobs_objects [OF assms(6), of "session self"] show ?thesis
    by (simp add: NEWT_queue_stat_def send_def iterate_def Let_def)
qed

theorem C9_queue_stat_witness:
  "''hopper'' \<in> set NEWT_MACHINES
   \<and> fst (NEWT_queue_stat client0 ''hopper'' (JInt 0) (JInt 10) []
        (world_of (\<lambda>req. Inr (ok_json example_queue))))
     = Inr (Jobs [example_job,
                  [''_session'' \<mapsto> ASession 0,
                   ''_data'' \<mapsto> AJson (JObj [(''jobid'', JStr ''12346.server''),
                                                (''hostname'', JStr ''hopper'')])]])"
proof -
  let ?W = "world_of (\<lambda>req. Inr (ok_json example_queue))"
  let ?entries = "[example_fields, [(''jobid'', JStr ''12346.server''), (''hostname'', JStr ''hopper'')]]"
  have m: "''hopper'' \<in> set NEWT_MACHINES"
    by (simp add: NEWT_MACHINES_def)
  have srv: "\<And>req. server ?W (sent ?W) (session client0) req = Inr (ok_json example_queue)"
    by (simp add: world_of_def)
  have ok: "\<not> http_error (ok_json example_queue)"
    by (simp add: ok_json_def)
  have body: "json_body (ok_json example_queue) = Some (JArr (map JObj ?entries))"
    by (simp add: ok_json_def example_queue_def)
  have free: "\<forall>kvs \<in> set ?entries. ''self'' \<notin> fst ` set kvs \<and> ''session'' \<notin> fst ` set kvs"
    by (simp add: example_fields_def)
  from C9_queue_stat_handles [OF m refl srv ok body free] m show ?thesis
    by (simp add: example_job_def client0_def)
qed

end
